theory Spec2Isabelle
  imports Complex_Main "HOL-Library.Char_ord" "HOL-Library.List_Lexorder"
begin

section \<open>Whalrus: ballots, scales and conversion to levels\<close>

text \<open>
  A shallow embedding of the conversion and scoring pipeline of Whalrus. Python numbers
  (\<open>int\<close>, \<open>float\<close>, \<open>Fraction\<close>) are embedded as exact integers and rationals: the
  arithmetic of the model is exact, floating-point rounding is not represented. Python
  sets are HOL sets, dictionaries are maps, exceptions are values of type \<open>error\<close> on
  the left of a sum.
\<close>

subsection \<open>Errors and level values\<close>

datatype error =
    NotImplementedError
  | ZeroDivisionError
  | TypeError
  | AttributeError
  | ValueError
  | KeyError
  | IndexError
  | ParseException

text \<open>An evaluation held by a levels ballot: an \<open>int\<close>, another number, or a label.\<close>

datatype level = LInt int | LFloat rat | LStr string

text \<open>The numeric value of a level; \<open>None\<close> where Python arithmetic raises \<open>TypeError\<close>.\<close>

fun number_of :: "level \<Rightarrow> rat option" where
  "number_of (LInt i) = Some (of_int i)"
| "number_of (LFloat r) = Some r"
| "number_of (LStr s) = None"

text \<open>\<open>isinstance(v, numbers.Number)\<close> and \<open>isinstance(v, int)\<close>.\<close>

fun is_number :: "level \<Rightarrow> bool" where
  "is_number (LInt i) = True"
| "is_number (LFloat r) = True"
| "is_number (LStr s) = False"

fun is_int :: "level \<Rightarrow> bool" where
  "is_int (LInt i) = True"
| "is_int (LFloat r) = False"
| "is_int (LStr s) = False"

fun int_of :: "level \<Rightarrow> int" where
  "int_of (LInt i) = i"
| "int_of (LFloat r) = 0"
| "int_of (LStr s) = 0"

definition num :: "level \<Rightarrow> rat" where
  "num v = (case number_of v of Some r \<Rightarrow> r | None \<Rightarrow> 0)"

subsection \<open>Scales\<close>

text \<open>
  \<open>ScaleInterval\<close> is \<^verbatim>\<open>scale/ScaleInterval.py\<close>. The other scale classes are imported by
  the converters but their files are not part of the sources; their constructors are
  declared here and their attributes are modelled below.
\<close>

datatype scale =
    ScaleInterval rat rat
  | ScaleRange int int
  | ScaleFromList "level list"
  | ScaleFromSet "level set"
  | Scale

text \<open>
  Modelled from the spec: \<open>is_bounded\<close> of the scale classes other than \<open>ScaleInterval\<close>
  (whose property returns \<open>True\<close> in the source). Interval, range and label-list scales are
  bounded; a scale from a set is bounded by its least and greatest value (the docstring
  of \<open>ConverterBallotToLevelsInterval\<close> rescales \<open>ScaleFromSet({-1, 0, 3})\<close> by the bounds
  \<open>-1\<close> and \<open>3\<close>); the base class \<open>Scale\<close> has no bounds.
\<close>

fun is_bounded :: "scale \<Rightarrow> bool" where
  "is_bounded (ScaleInterval l h) = True"
| "is_bounded (ScaleRange l h) = True"
| "is_bounded (ScaleFromList ls) = True"
| "is_bounded (ScaleFromSet S) = True"
| "is_bounded Scale = False"

text \<open>
  Modelled from the spec: the bounds \<open>low\<close> and \<open>high\<close> of a scale as operands of Python
  arithmetic. \<open>ScaleInterval\<close> returns its stored bounds (source). A range scale returns its
  integer bounds, a label list its first and last label, a set its least and greatest
  element. A bound that is not a number makes the subtraction \<open>v - low\<close> raise
  \<open>TypeError\<close>, and the base class has no such attribute (\<open>AttributeError\<close>); the converter
  catches both in the same handler.
\<close>

fun scale_low :: "scale \<Rightarrow> error + rat" where
  "scale_low (ScaleInterval l h) = Inr l"
| "scale_low (ScaleRange l h) = Inr (of_int l)"
| "scale_low (ScaleFromList ls) =
     (case ls of [] \<Rightarrow> Inl TypeError
      | v # _ \<Rightarrow> (case number_of v of None \<Rightarrow> Inl TypeError | Some r \<Rightarrow> Inr r))"
| "scale_low (ScaleFromSet S) =
     (if S \<noteq> {} \<and> finite S \<and> (\<forall>v\<in>S. is_number v) then Inr (Min (num ` S)) else Inl TypeError)"
| "scale_low Scale = Inl AttributeError"

fun scale_high :: "scale \<Rightarrow> error + rat" where
  "scale_high (ScaleInterval l h) = Inr h"
| "scale_high (ScaleRange l h) = Inr (of_int h)"
| "scale_high (ScaleFromList ls) =
     (case ls of [] \<Rightarrow> Inl TypeError
      | _ # _ \<Rightarrow> (case number_of (last ls) of None \<Rightarrow> Inl TypeError | Some r \<Rightarrow> Inr r))"
| "scale_high (ScaleFromSet S) =
     (if S \<noteq> {} \<and> finite S \<and> (\<forall>v\<in>S. is_number v) then Inr (Max (num ` S)) else Inl TypeError)"
| "scale_high Scale = Inl AttributeError"

subsection \<open>Ballots\<close>

text \<open>
  \<open>BallotLevels\<close> (\<^verbatim>\<open>ballots/BallotLevels.py\<close>): the dictionary of evaluations, the
  declared candidates, and the scale given to the constructor (\<open>_input_scale\<close>, possibly
  \<open>None\<close>).
\<close>

record 'c ballot_levels =
  as_dict :: "'c \<rightharpoonup> level"
  candidates :: "'c set"
  input_scale :: "scale option"

text \<open>\<open>BallotLevels.scale\<close>: the given scale, or the scale inferred from the values.\<close>

definition scale :: "'c ballot_levels \<Rightarrow> scale" where
  "scale b =
     (case input_scale b of
        Some s \<Rightarrow> s
      | None \<Rightarrow>
          if dom (as_dict b) = {} then ScaleFromSet {}
          else if (\<forall>v\<in>ran (as_dict b). is_int v)
            then ScaleRange (Min (int_of ` ran (as_dict b))) (Max (int_of ` ran (as_dict b)))
          else if (\<forall>v\<in>ran (as_dict b). is_number v)
            then ScaleInterval (Min (num ` ran (as_dict b))) (Max (num ` ran (as_dict b)))
          else ScaleFromSet (ran (as_dict b)))"

text \<open>\<open>BallotLevels.candidates_in_b\<close>: the keys of the dictionary.\<close>

definition candidates_in_b :: "'c ballot_levels \<Rightarrow> 'c set" where
  "candidates_in_b b = dom (as_dict b)"

text \<open>
  \<open>BallotLevels.restrict\<close>. No keyword argument is passed by any caller modelled here,
  so the \<open>TypeError\<close> of the \<open>kwargs\<close> check has no branch. \<open>candidates=None\<close> returns the
  ballot itself; otherwise the dictionary is filtered, the declared set intersected, and
  the scale of the ballot is passed on as the explicit scale of the new ballot.
\<close>

fun restrict :: "'c ballot_levels \<Rightarrow> 'c set option \<Rightarrow> 'c ballot_levels" where
  "restrict b None = b"
| "restrict b (Some cs) =
     \<lparr>as_dict = (\<lambda>k. if k \<in> cs then as_dict b k else None),
      candidates = candidates b \<inter> cs,
      input_scale = Some (scale b)\<rparr>"

text \<open>
  The ballot classes. \<open>BallotVeto\<close> and \<open>BallotPlurality\<close> are subclasses of
  \<open>BallotOneName\<close>, and \<open>BallotLevels\<close> of \<open>BallotOrder\<close>; the \<open>isinstance\<close> chains of the
  converters become pattern matches in the order of the source. An order ballot holds its
  weak order (indifference classes, most preferred first) and its declared candidates.
\<close>

datatype 'c ballot =
    BallotOrder "'c set list" "'c set"
  | BallotLevels "'c ballot_levels"
  | BallotOneName "'c option" "'c set"
  | BallotPlurality "'c option" "'c set"
  | BallotVeto "'c option" "'c set"


text \<open>
  \<open>BallotLevels.as_weak_order\<close>: one indifference class per distinct value, the values
  sorted in decreasing order. Python compares numbers by value and strings
  lexicographically; sorting a mix of both raises \<open>TypeError\<close>.
\<close>

fun label_of :: "level \<Rightarrow> string" where
  "label_of (LStr s) = s"
| "label_of (LInt i) = []"
| "label_of (LFloat r) = []"

definition as_weak_order :: "'c ballot_levels \<Rightarrow> error + 'c set list" where
  "as_weak_order b =
     (let vs = ran (as_dict b) in
      if (\<forall>v\<in>vs. is_number v) then
        Inr (map (\<lambda>r. {k. \<exists>v. as_dict b k = Some v \<and> number_of v = Some r})
               (rev (sorted_list_of_set (num ` vs))))
      else if (\<forall>v\<in>vs. \<not> is_number v) then
        Inr (map (\<lambda>s. {k. as_dict b k = Some (LStr s)})
               (rev (sorted_list_of_set (label_of ` vs))))
      else Inl TypeError)"

subsection \<open>Borda scores of an order ballot\<close>

text \<open>
  Modelled from the spec: \<open>BallotOrder.borda\<close>, whose file is not part of the sources.
  A candidate of the order earns one point for each candidate of a later indifference
  class and half a point for each other member of its own class; when
  \<open>unordered_give_points\<close> holds it also earns one point for each declared candidate that
  the order does not mention.
\<close>

fun borda_points :: "'c set list \<Rightarrow> 'c \<Rightarrow> rat" where
  "borda_points [] c = 0"
| "borda_points (cl # rest) c =
     (if c \<in> cl then of_nat (sum_list (map card rest)) + (of_nat (card cl) - 1) / 2
      else borda_points rest c)"

definition borda :: "'c set list \<Rightarrow> 'c set \<Rightarrow> bool \<Rightarrow> 'c \<Rightarrow> rat" where
  "borda wo cands unordered_give_points c =
     borda_points wo c
       + (if unordered_give_points then of_nat (card (cands - \<Union>(set wo))) else 0)"

subsection \<open>ConverterBallotToLevelsInterval\<close>

text \<open>
  The converter object: the target scale, its bounds as read by \<open>__init__\<close>, and the
  Borda option.
\<close>

record converter_interval =
  cv_scale :: scale
  cv_low :: rat
  cv_high :: rat
  cv_borda_unordered_give_points :: bool

text \<open>\<open>ConverterBallotToLevelsInterval.__init__\<close> on a \<open>ScaleInterval\<close>.\<close>

definition ConverterBallotToLevelsInterval :: "rat \<Rightarrow> rat \<Rightarrow> bool \<Rightarrow> converter_interval" where
  "ConverterBallotToLevelsInterval l h ugp =
     \<lparr>cv_scale = ScaleInterval l h, cv_low = l, cv_high = h,
      cv_borda_unordered_give_points = ugp\<rparr>"

text \<open>The ballot \<open>BallotLevels(d, candidates=cs, scale=s)\<close>.\<close>

definition mk_levels :: "('c \<rightharpoonup> level) \<Rightarrow> 'c set \<Rightarrow> scale \<Rightarrow> 'c ballot_levels" where
  "mk_levels d cs s = \<lparr>as_dict = d, candidates = cs, input_scale = Some s\<rparr>"

text \<open>
  The branch of one-name ballots: \<open>{c: hit if c == x.candidate else miss for c in
  x.candidates}\<close>, or the empty dictionary when the held candidate is \<open>None\<close>.
\<close>

definition extremal_levels ::
  "converter_interval \<Rightarrow> 'c option \<Rightarrow> 'c set \<Rightarrow> rat \<Rightarrow> rat \<Rightarrow> 'c ballot_levels" where
  "extremal_levels cv cand cs hit miss =
     (case cand of
        None \<Rightarrow> mk_levels Map.empty cs (cv_scale cv)
      | Some x \<Rightarrow>
          mk_levels (\<lambda>c. if c \<in> cs then Some (LFloat (if c = x then hit else miss)) else None)
            cs (cv_scale cv))"

text \<open>
  The branch of order ballots, also reached by a levels ballot whose values are not
  numbers. The dictionary comprehension divides by \<open>score_max\<close> once for each candidate of
  the order: with a denominator of zero the first division raises.
\<close>

definition order_to_levels ::
  "converter_interval \<Rightarrow> 'c set list \<Rightarrow> 'c set \<Rightarrow> 'c set \<Rightarrow> error + 'c ballot_levels" where
  "order_to_levels cv wo cs in_b =
     (let ugp = cv_borda_unordered_give_points cv;
          score_max = (if ugp then int (card cs) - 1 else int (card in_b) - 1)
      in if in_b \<noteq> {} \<and> score_max = 0 then Inl ZeroDivisionError
         else Inr (mk_levels
                (\<lambda>c. if c \<in> in_b
                      then Some (LFloat (cv_low cv
                             + (cv_high cv - cv_low cv) * borda wo cs ugp c / of_int score_max))
                      else None)
                cs (cv_scale cv)))"

text \<open>
  A dictionary comprehension \<open>{c: f(v) for c, v in d.items()}\<close> whose body may raise. It
  stops at the first item that raises; which item comes first is the iteration order of the
  dictionary, which a map does not record. Where different items raise different errors
  the model reports them in the fixed order below (the errors the converter catches
  first).
\<close>

definition first_error :: "error set \<Rightarrow> error" where
  "first_error es =
     (case find (\<lambda>e. e \<in> es)
             [TypeError, AttributeError, KeyError, ZeroDivisionError, ValueError, IndexError,
              NotImplementedError, ParseException] of
        Some e \<Rightarrow> e
      | None \<Rightarrow> TypeError)"

definition dict_comprehension ::
  "(level \<Rightarrow> error + level) \<Rightarrow> ('c \<rightharpoonup> level) \<Rightarrow> error + ('c \<rightharpoonup> level)" where
  "dict_comprehension f d =
     (let errs = {e. \<exists>v\<in>ran d. f v = Inl e}
      in if errs = {}
         then Inr (\<lambda>c. case d c of
                          None \<Rightarrow> None
                        | Some v \<Rightarrow> (case f v of Inr w \<Rightarrow> Some w | Inl e \<Rightarrow> None))
         else Inl (first_error errs))"

text \<open>
  The body of the cardinal comprehension:
  \<open>low + (high - low) * (v - x.scale.low) / (x.scale.high - x.scale.low)\<close>, in Python's
  order of evaluation.
\<close>

definition rescale :: "rat \<Rightarrow> rat \<Rightarrow> scale \<Rightarrow> level \<Rightarrow> error + level" where
  "rescale l h sc v =
     (case scale_low sc of
        Inl e \<Rightarrow> Inl e
      | Inr sl \<Rightarrow>
         (case number_of v of
            None \<Rightarrow> Inl TypeError
          | Some n \<Rightarrow>
             (case scale_high sc of
                Inl e \<Rightarrow> Inl e
              | Inr sh \<Rightarrow>
                  if sh - sl = 0 then Inl ZeroDivisionError
                  else Inr (LFloat (l + (h - l) * (n - sl) / (sh - sl))))))"

text \<open>
  Python's \<open>==\<close> on levels, and the index of a label in a label list
  (\<open>ScaleFromList.as_dict\<close>; modelled from the spec, which gives a list scale a
  label-to-rank lookup).
\<close>

definition py_eq :: "level \<Rightarrow> level \<Rightarrow> bool" where
  "py_eq a b =
     (case (number_of a, number_of b) of
        (Some x, Some y) \<Rightarrow> x = y
      | (None, None) \<Rightarrow> a = b
      | _ \<Rightarrow> False)"

fun index_of :: "level list \<Rightarrow> level \<Rightarrow> nat option" where
  "index_of [] v = None"
| "index_of (l # ls) v = (if py_eq l v then Some 0 else map_option Suc (index_of ls v))"

text \<open>
  The body of the comprehension of the \<open>except\<close> handler:
  \<open>low + (high - low) * x_scale.as_dict[x[c]] / (len(x_scale.levels) - 1)\<close>.
\<close>

definition rescale_by_index :: "rat \<Rightarrow> rat \<Rightarrow> level list \<Rightarrow> level \<Rightarrow> error + level" where
  "rescale_by_index l h ls v =
     (case index_of ls v of
        None \<Rightarrow> Inl KeyError
      | Some i \<Rightarrow>
          if int (length ls) - 1 = 0 then Inl ZeroDivisionError
          else Inr (LFloat (l + (h - l) * of_nat i / of_int (int (length ls) - 1))))"

text \<open>
  The \<open>try\<close> block and what follows it. The cardinal comprehension is tried first; a
  \<open>TypeError\<close> or \<open>AttributeError\<close> is caught, and then a list scale is converted by
  label index, while a levels ballot on any other scale falls through to the branch of
  order ballots (a \<open>BallotLevels\<close> is a \<open>BallotOrder\<close>).
\<close>

definition cardinal_to_levels ::
  "converter_interval \<Rightarrow> 'c ballot_levels \<Rightarrow> error + 'c ballot_levels" where
  "cardinal_to_levels cv x =
     (case dict_comprehension (rescale (cv_low cv) (cv_high cv) (scale x)) (as_dict x) of
        Inr d \<Rightarrow> Inr (mk_levels d (candidates x) (cv_scale cv))
      | Inl e \<Rightarrow>
          if e = TypeError \<or> e = AttributeError then
            (case scale x of
               ScaleFromList ls \<Rightarrow>
                 (case dict_comprehension (rescale_by_index (cv_low cv) (cv_high cv) ls)
                         (as_dict x) of
                    Inr d \<Rightarrow> Inr (mk_levels d (candidates x) (cv_scale cv))
                  | Inl e' \<Rightarrow> Inl e')
             | _ \<Rightarrow>
                 (case as_weak_order x of
                    Inl e' \<Rightarrow> Inl e'
                  | Inr wo \<Rightarrow> order_to_levels cv wo (candidates x) (candidates_in_b x)))
          else Inl e)"

text \<open>
  The branch of levels ballots. A ballot on an unbounded scale is kept as it is when its
  values are numbers within the target bounds, and otherwise given the scale spanned by
  its own values; \<open>min\<close> and \<open>max\<close> of an empty dictionary raise \<open>ValueError\<close>.
\<close>

definition levels_to_levels ::
  "converter_interval \<Rightarrow> 'c ballot_levels \<Rightarrow> error + 'c ballot_levels" where
  "levels_to_levels cv x =
     (if \<not> is_bounded (scale x) then
        if (\<forall>v\<in>ran (as_dict x). is_number v) then
          if ran (as_dict x) = {} then Inl ValueError
          else
            (let x_min = Min (num ` ran (as_dict x)); x_max = Max (num ` ran (as_dict x))
             in if x_min \<ge> cv_low cv \<and> x_max \<le> cv_high cv
                then Inr (mk_levels (as_dict x) (candidates x)
                            (ScaleInterval (cv_low cv) (cv_high cv)))
                else cardinal_to_levels cv
                       (mk_levels (as_dict x) (candidates x) (ScaleInterval x_min x_max)))
        else cardinal_to_levels cv
               (mk_levels (as_dict x) (candidates x) (ScaleFromSet (ran (as_dict x))))
      else cardinal_to_levels cv x)"

text \<open>
  \<open>ConverterBallotToLevelsInterval.__call__\<close> on a ballot. The first line of the source
  passes the input through \<open>ConverterBallotGeneral\<close> with \<open>candidates=None\<close>, which returns
  a ballot unchanged. Every branch ends with \<open>.restrict(candidates=candidates)\<close>, applied
  after the dictionary has been built.
\<close>

fun interval_unrestricted :: "converter_interval \<Rightarrow> 'c ballot \<Rightarrow> error + 'c ballot_levels" where
  "interval_unrestricted cv (BallotVeto cand cs) =
     Inr (extremal_levels cv cand cs (cv_low cv) (cv_high cv))"
| "interval_unrestricted cv (BallotOneName cand cs) =
     Inr (extremal_levels cv cand cs (cv_high cv) (cv_low cv))"
| "interval_unrestricted cv (BallotPlurality cand cs) =
     Inr (extremal_levels cv cand cs (cv_high cv) (cv_low cv))"
| "interval_unrestricted cv (BallotLevels x) = levels_to_levels cv x"
| "interval_unrestricted cv (BallotOrder wo cs) = order_to_levels cv wo cs (\<Union>(set wo))"

definition interval_call ::
  "converter_interval \<Rightarrow> 'c ballot \<Rightarrow> 'c set option \<Rightarrow> error + 'c ballot_levels" where
  "interval_call cv x cands =
     (case interval_unrestricted cv x of
        Inl e \<Rightarrow> Inl e
      | Inr r \<Rightarrow> Inr (restrict r cands))"


subsection \<open>ConverterBallotToLevels and ConverterBallotToLevelsListNonNumeric\<close>

text \<open>
  The specialised converters \<open>ConverterBallotToLevels\<close> wraps. Only the interval converter
  and the converter to non-numeric labels are part of the sources; the converters to a
  range scale and to a numeric label list are named by their constructor arguments.
\<close>

datatype aux_converter =
    AuxInterval converter_interval
  | AuxRange int int bool
  | AuxListNumeric "level list" bool
  | AuxListNonNumeric "level list" bool

record converter_to_levels =
  ctl_scale :: "scale option"
  ctl_borda_unordered_give_points :: bool
  ctl_aux_converter :: aux_converter

text \<open>
  Modelled from the spec: \<open>ScaleFromList.is_numeric\<close> (a label list is numeric when all
  its labels are numbers).
\<close>

definition is_numeric :: "level list \<Rightarrow> bool" where
  "is_numeric ls = list_all is_number ls"

text \<open>
  \<open>ConverterBallotToLevels.__init__\<close>. The source has two separate statements: an \<open>if
  scale is None\<close> that installs the interval converter on \<open>[0, 1]\<close>, and then an
  \<open>if/elif/else\<close> chain over the class of \<open>scale\<close> whose \<open>else\<close> raises
  \<open>NotImplementedError\<close>. \<open>first_statement\<close> is the attribute after the first statement.
\<close>

definition first_statement :: "scale option \<Rightarrow> bool \<Rightarrow> aux_converter option" where
  "first_statement sc ugp =
     (if sc = None then Some (AuxInterval (ConverterBallotToLevelsInterval 0 1 ugp)) else None)"

definition ConverterBallotToLevels :: "scale option \<Rightarrow> bool \<Rightarrow> error + converter_to_levels" where
  "ConverterBallotToLevels sc ugp =
     (let aux0 = first_statement sc ugp;
          made = (\<lambda>a. Inr \<lparr>ctl_scale = sc, ctl_borda_unordered_give_points = ugp,
                           ctl_aux_converter = a\<rparr>)
      in case sc of
           Some (ScaleInterval l h) \<Rightarrow> made (AuxInterval (ConverterBallotToLevelsInterval l h ugp))
         | Some (ScaleRange l h) \<Rightarrow> made (AuxRange l h ugp)
         | Some (ScaleFromList ls) \<Rightarrow>
             if is_numeric ls then made (AuxListNumeric ls ugp)
             else made (AuxListNonNumeric ls ugp)
         | _ \<Rightarrow> Inl NotImplementedError)"

text \<open>
  Python's \<open>levels[v]\<close>: an integer index, negative indices counting from the end; any other
  index type raises \<open>TypeError\<close>.
\<close>

definition py_getitem :: "level list \<Rightarrow> level \<Rightarrow> error + level" where
  "py_getitem ls v =
     (case v of
        LInt i \<Rightarrow>
          if 0 \<le> i \<and> i < int (length ls) then Inr (ls ! nat i)
          else if i < 0 \<and> - int (length ls) \<le> i then Inr (ls ! nat (int (length ls) + i))
          else Inl IndexError
      | _ \<Rightarrow> Inl TypeError)"

text \<open>
  \<open>ConverterBallotToLevelsListNonNumeric.__call__\<close>. The converter to a range scale is not
  part of the sources: it is the parameter \<open>to_range\<close>, called with the bounds \<open>0\<close> and
  \<open>len(levels) - 1\<close>, the Borda option, the ballot and \<open>candidates=None\<close>.
\<close>

definition list_non_numeric_call ::
  "(int \<Rightarrow> int \<Rightarrow> bool \<Rightarrow> 'c ballot \<Rightarrow> 'c set option \<Rightarrow> error + 'c ballot_levels)
   \<Rightarrow> level list \<Rightarrow> bool \<Rightarrow> 'c ballot \<Rightarrow> 'c set option \<Rightarrow> error + 'c ballot_levels" where
  "list_non_numeric_call to_range ls ugp x cands =
     (case to_range 0 (int (length ls) - 1) ugp x None of
        Inl e \<Rightarrow> Inl e
      | Inr r \<Rightarrow>
          (case dict_comprehension (py_getitem ls) (as_dict r) of
             Inl e \<Rightarrow> Inl e
           | Inr d \<Rightarrow> Inr (restrict (mk_levels d (candidates r) (ScaleFromList ls)) cands)))"

text \<open>
  \<open>ConverterBallotToLevels.__call__\<close>: without a target scale a levels ballot is only
  restricted; every other input goes to the specialised converter. \<open>to_range\<close> and
  \<open>to_list_numeric\<close> stand for the two converters that are not part of the sources.
\<close>

definition to_levels_call ::
  "(int \<Rightarrow> int \<Rightarrow> bool \<Rightarrow> 'c ballot \<Rightarrow> 'c set option \<Rightarrow> error + 'c ballot_levels)
   \<Rightarrow> (level list \<Rightarrow> bool \<Rightarrow> 'c ballot \<Rightarrow> 'c set option \<Rightarrow> error + 'c ballot_levels)
   \<Rightarrow> converter_to_levels \<Rightarrow> 'c ballot \<Rightarrow> 'c set option \<Rightarrow> error + 'c ballot_levels" where
  "to_levels_call to_range to_list_numeric cv x cands =
     (case (ctl_scale cv, x) of
        (None, BallotLevels b) \<Rightarrow> Inr (restrict b cands)
      | _ \<Rightarrow>
         (case ctl_aux_converter cv of
            AuxInterval ci \<Rightarrow> interval_call ci x cands
          | AuxRange l h ugp \<Rightarrow> to_range l h ugp x cands
          | AuxListNumeric ls ugp \<Rightarrow> to_list_numeric ls ugp x cands
          | AuxListNonNumeric ls ugp \<Rightarrow> list_non_numeric_call to_range ls ugp x cands))"

subsection \<open>Restriction of order ballots\<close>

text \<open>
  Modelled from the spec: \<open>BallotOrder.restrict\<close> on a set of candidates, whose file is
  not part of the sources (\<open>BallotLevels.restrict\<close> above is). An order ballot is its weak
  order and its declared candidates; restriction drops the candidates outside the set from
  each indifference class, drops the classes left empty, and intersects the declared set.
\<close>

fun order_restrict :: "'c set list \<times> 'c set \<Rightarrow> 'c set \<Rightarrow> 'c set list \<times> 'c set" where
  "order_restrict (wo, cs) S = (filter (\<lambda>cl. cl \<noteq> {}) (map (\<lambda>cl. cl \<inter> S) wo), cs \<inter> S)"

subsection \<open>ScorerBucklin\<close>

text \<open>\<open>scores.update({c: v for c in cl})\<close> on the dictionary of scores.\<close>

definition update_all :: "('c \<rightharpoonup> rat) \<Rightarrow> 'c set \<Rightarrow> rat \<Rightarrow> ('c \<rightharpoonup> rat)" where
  "update_all scores cl v = (\<lambda>c. if c \<in> cl then Some v else scores c)"

text \<open>
  The \<open>if/else\<close> that the source runs on each indifference class, and again on the
  unordered and on the absent candidates when their option is \<open>True\<close>: a class that fits
  in \<open>points_remaining\<close> gets one point per candidate, a larger one shares what remains.
  The state is the dictionary of scores and \<open>points_remaining\<close>. (The last occurrence in
  the source does not update \<open>points_remaining\<close>, which is not read afterwards.)
\<close>

definition give_points :: "'c set \<Rightarrow> ('c \<rightharpoonup> rat) \<times> rat \<Rightarrow> ('c \<rightharpoonup> rat) \<times> rat" where
  "give_points cl st =
     (case st of (scores, points_remaining) \<Rightarrow>
        (let n_indifference = of_nat (card cl) in
         if n_indifference \<le> points_remaining
         then (update_all scores cl 1, points_remaining - n_indifference)
         else (update_all scores cl (points_remaining / n_indifference), 0)))"

text \<open>The loop over \<open>self.ballot_.as_weak_order\<close>.\<close>

fun ordered_loop :: "'c set list \<Rightarrow> ('c \<rightharpoonup> rat) \<times> rat \<Rightarrow> ('c \<rightharpoonup> rat) \<times> rat" where
  "ordered_loop [] st = st"
| "ordered_loop (cl # rest) st = ordered_loop rest (give_points cl st)"

text \<open>
  \<open>ScorerBucklin.scores_\<close> for a ballot with weak order \<open>wo\<close> and declared candidates \<open>cb\<close>,
  the candidates \<open>ce\<close> of the election, and the options \<open>k\<close>, \<open>unordered_receive_points\<close> and
  \<open>absent_receive_points\<close> (\<open>True\<close>, \<open>False\<close> or \<open>None\<close>). The unordered candidates
  (\<open>candidates_not_in_b\<close>) are the declared candidates that the order does not mention.
\<close>

definition ScorerBucklin_scores ::
  "'c set list \<Rightarrow> 'c set \<Rightarrow> 'c set \<Rightarrow> int \<Rightarrow> bool option \<Rightarrow> bool option \<Rightarrow> ('c \<rightharpoonup> rat)" where
  "ScorerBucklin_scores wo cb ce k unordered_receive_points absent_receive_points =
     (let st1 = ordered_loop wo (Map.empty, of_int k);
          unordered = cb - \<Union>(set wo);
          st2 = (case unordered_receive_points of
                   Some False \<Rightarrow> (update_all (fst st1) unordered 0, snd st1)
                 | Some True \<Rightarrow> give_points unordered st1
                 | None \<Rightarrow> st1);
          absent = ce - cb;
          st3 = (case absent_receive_points of
                   Some False \<Rightarrow> (update_all (fst st2) absent 0, snd st2)
                 | Some True \<Rightarrow> give_points absent st2
                 | None \<Rightarrow> st2)
      in fst st3)"

text \<open>
  The scorer as the specification words it. The ranks are the indifference classes of the
  order, followed by the class of the unordered candidates and by the class of the absent
  candidates when their policy is \<open>True\<close>. \<open>distribute\<close> walks the ranks front to back with
  a budget: a class that fits in the budget gets one point per candidate, a class that
  exceeds it splits what remains evenly and leaves nothing.
\<close>

fun distribute :: "rat \<Rightarrow> 'c set list \<Rightarrow> ('c set \<times> rat) list" where
  "distribute budget [] = []"
| "distribute budget (cl # rest) =
     (if of_nat (card cl) \<le> budget
      then (cl, 1) # distribute (budget - of_nat (card cl)) rest
      else (cl, budget / of_nat (card cl)) # distribute 0 rest)"

fun share_of :: "('c set \<times> rat) list \<Rightarrow> 'c \<Rightarrow> rat option" where
  "share_of [] c = None"
| "share_of ((cl, s) # rest) c = (if c \<in> cl then Some s else share_of rest c)"

text \<open>
  A candidate of a rank scores the share of its rank; a candidate of a group whose policy
  is \<open>False\<close> scores 0; any other candidate (a group whose policy is \<open>None\<close>, or a
  candidate outside the election) is not in the mapping.
\<close>

definition bucklin_spec ::
  "'c set list \<Rightarrow> 'c set \<Rightarrow> 'c set \<Rightarrow> int \<Rightarrow> bool option \<Rightarrow> bool option \<Rightarrow> ('c \<rightharpoonup> rat)" where
  "bucklin_spec wo cb ce k u a c =
     (let unordered = cb - \<Union>(set wo);
          absent = ce - cb;
          ranks = wo @ (if u = Some True then [unordered] else [])
                     @ (if a = Some True then [absent] else [])
      in case share_of (distribute (of_int k) ranks) c of
           Some s \<Rightarrow> Some s
         | None \<Rightarrow>
             if (u = Some False \<and> c \<in> unordered) \<or> (a = Some False \<and> c \<in> absent)
             then Some 0 else None)"

text \<open>The invariant of an order ballot: its indifference classes are pairwise disjoint.\<close>

fun pairwise_disjoint :: "'c set list \<Rightarrow> bool" where
  "pairwise_disjoint [] = True"
| "pairwise_disjoint (cl # rest) = (cl \<inter> \<Union>(set rest) = {} \<and> pairwise_disjoint rest)"

text \<open>What is left of a budget after a list of ranks.\<close>

fun budget_after :: "rat \<Rightarrow> 'c set list \<Rightarrow> rat" where
  "budget_after b [] = b"
| "budget_after b (cl # rest) =
     (if of_nat (card cl) \<le> b then budget_after (b - of_nat (card cl)) rest
      else budget_after 0 rest)"

text \<open>
  The state of the scorer after the ranks \<open>ranks\<close>, started with the budget \<open>b\<close>: the
  shares of the ranks over a dictionary \<open>z\<close> of zero scores, and the remaining budget.
\<close>

definition shared :: "rat \<Rightarrow> 'c set list \<Rightarrow> ('c \<rightharpoonup> rat) \<Rightarrow> ('c \<rightharpoonup> rat) \<times> rat" where
  "shared b ranks z =
     ((\<lambda>c. case share_of (distribute b ranks) c of Some s \<Rightarrow> Some s | None \<Rightarrow> z c),
      budget_after b ranks)"

subsection \<open>Loading a profile: Rule and Matrix\<close>

text \<open>The attribute \<open>candidates\<close> of a ballot of any class.\<close>

fun ballot_candidates :: "'c ballot \<Rightarrow> 'c set" where
  "ballot_candidates (BallotOrder wo cs) = cs"
| "ballot_candidates (BallotLevels b) = candidates b"
| "ballot_candidates (BallotOneName c cs) = cs"
| "ballot_candidates (BallotPlurality c cs) = cs"
| "ballot_candidates (BallotVeto c cs) = cs"

text \<open>
  \<open>[self.converter(b, candidates) for b in profile]\<close>: the converter is the one injected at
  construction, a parameter here; the first ballot it fails on ends the comprehension.
\<close>

fun convert_all ::
  "('x \<Rightarrow> 'c set option \<Rightarrow> error + 'c ballot) \<Rightarrow> 'x list \<Rightarrow> 'c set option \<Rightarrow> error + 'c ballot list"
  where
  "convert_all converter [] cands = Inr []"
| "convert_all converter (b # bs) cands =
     (case converter b cands of
        Inl e \<Rightarrow> Inl e
      | Inr b' \<Rightarrow>
          (case convert_all converter bs cands of
             Inl e \<Rightarrow> Inl e
           | Inr bs' \<Rightarrow> Inr (b' # bs')))"

text \<open>
  \<open>_check_profile\<close>, the same in \<open>Rule\<close> and \<open>Matrix\<close>: its only effect is a call of
  \<open>logging.warning\<close>; the model returns the messages it logs.
\<close>

definition Rule_check_profile :: "'c ballot list \<Rightarrow> 'c set \<Rightarrow> string list" where
  "Rule_check_profile bs cands =
     (if list_ex (\<lambda>b. ballot_candidates b \<noteq> cands) bs
      then [''Some ballots do not have the same set of candidates as the whole election.'']
      else [])"

definition Matrix_check_profile :: "'c ballot list \<Rightarrow> 'c set \<Rightarrow> string list" where
  "Matrix_check_profile bs cands =
     (if list_ex (\<lambda>b. ballot_candidates b \<noteq> cands) bs
      then [''Some ballots do not have the same set of candidates as the whole election.'']
      else [])"

text \<open>
  The attributes a call sets, \<open>profile_original_\<close> (named \<open>profile_\<close> in \<open>Matrix\<close>),
  \<open>profile_converted_\<close> and \<open>candidates_\<close>, and the warnings it logs. The profile container is not part of the sources: a loaded
  profile is the list of its (ballot, weight, voter) triples.
\<close>

record ('x, 'c, 'v) loaded =
  attr_profile_original :: "('x \<times> rat \<times> 'v) list"
  attr_profile_converted :: "('c ballot \<times> rat \<times> 'v) list"
  attr_candidates :: "'c set"
  logged :: "string list"

text \<open>\<open>Rule.__call__\<close> and \<open>Matrix.__call__\<close>.\<close>

definition Rule_call ::
  "('x \<Rightarrow> 'c set option \<Rightarrow> error + 'c ballot) \<Rightarrow> ('x \<times> rat \<times> 'v) list \<Rightarrow> 'c set option
   \<Rightarrow> error + ('x, 'c, 'v) loaded" where
  "Rule_call converter profile cands =
     (case convert_all converter (map fst profile) cands of
        Inl e \<Rightarrow> Inl e
      | Inr bs \<Rightarrow>
          (let candidates' = (case cands of
                                None \<Rightarrow> \<Union>(set (map ballot_candidates bs))
                              | Some cs \<Rightarrow> cs)
           in Inr \<lparr>attr_profile_original = profile,
                   attr_profile_converted = zip bs (map snd profile),
                   attr_candidates = candidates',
                   logged = Rule_check_profile bs candidates'\<rparr>))"

definition Matrix_call ::
  "('x \<Rightarrow> 'c set option \<Rightarrow> error + 'c ballot) \<Rightarrow> ('x \<times> rat \<times> 'v) list \<Rightarrow> 'c set option
   \<Rightarrow> error + ('x, 'c, 'v) loaded" where
  "Matrix_call converter profile cands =
     (case convert_all converter (map fst profile) cands of
        Inl e \<Rightarrow> Inl e
      | Inr bs \<Rightarrow>
          (let candidates' = (case cands of
                                None \<Rightarrow> \<Union>(set (map ballot_candidates bs))
                              | Some cs \<Rightarrow> cs)
           in Inr \<lparr>attr_profile_original = profile,
                   attr_profile_converted = zip bs (map snd profile),
                   attr_candidates = candidates',
                   logged = Matrix_check_profile bs candidates'\<rparr>))"

subsection \<open>The two copies of ConverterBallotGeneral\<close>









subsection \<open>RuleMajorityJudgment\<close>

text \<open>
  The methods of the scorer's scale that the rule calls: \<open>argsort\<close>, \<open>gt\<close> and \<open>lt\<close>.
\<close>

record 'l scale_ops =
  sc_argsort :: "'l list \<Rightarrow> nat list"
  sc_gt :: "'l \<Rightarrow> 'l \<Rightarrow> bool"
  sc_lt :: "'l \<Rightarrow> 'l \<Rightarrow> bool"

text \<open>
  A scale whose order is that of a key into a linear order. \<open>argsort\<close> is
  \<open>ScaleInterval.argsort\<close> of the source,
  \<open>sorted(range(len(some_list)), key=lambda i: some_list[i])\<close>, a stable sort, with the key
  applied to the level (the identity for \<open>ScaleInterval\<close>). Modelled from the spec: \<open>gt\<close>
  and \<open>lt\<close>, defined by the base class \<open>Scale\<close> whose file is not part of the sources; they
  compare two levels in the order of the scale.
\<close>

definition scale_by :: "('l \<Rightarrow> 'k::linorder) \<Rightarrow> 'l scale_ops" where
  "scale_by key =
     \<lparr>sc_argsort = (\<lambda>some_list. sort_key (\<lambda>i. key (some_list ! i)) [0..<length some_list]),
      sc_gt = (\<lambda>one another. key one > key another),
      sc_lt = (\<lambda>one another. key one < key another)\<rparr>"



text \<open>
  The loop \<open>for i, weight in enumerate(weights_[c])\<close> that looks for the median; it leaves
  \<open>median = None\<close> when the cumulative weight never reaches half of the total.
\<close>

fun median_loop :: "'l list \<Rightarrow> rat list \<Rightarrow> nat \<Rightarrow> rat \<Rightarrow> rat \<Rightarrow> 'l option" where
  "median_loop levels [] i cumulative_weight half_total_weight = None"
| "median_loop levels (weight # rest) i cumulative_weight half_total_weight =
     (if cumulative_weight + weight \<ge> half_total_weight then Some (levels ! i)
      else median_loop levels rest (Suc i) (cumulative_weight + weight) half_total_weight)"

text \<open>
  The body of the second loop of \<open>scores_\<close>, for one candidate with its collected levels
  and weights. A candidate without evaluation gets \<open>(default_median, 0, 0)\<close>. Otherwise the
  levels and weights are permuted by \<open>argsort\<close>, the median is looked for, \<open>p\<close> and \<open>q\<close>
  are summed, and the divisions by \<open>total_weight\<close> raise \<open>ZeroDivisionError\<close> when it is
  zero. Comparing a level with a median that is still \<open>None\<close> raises \<open>TypeError\<close>.
\<close>

definition MJ_score ::
  "'l scale_ops \<Rightarrow> 'l option \<Rightarrow> 'l list \<Rightarrow> rat list \<Rightarrow> error + ('l option \<times> rat \<times> rat)" where
  "MJ_score sc default_median levels0 weights0 =
     (if levels0 = [] then Inr (default_median, 0, 0)
      else
        (let indexes = sc_argsort sc levels0;
             levels = map (\<lambda>i. levels0 ! i) indexes;
             weights = map (\<lambda>i. weights0 ! i) indexes;
             total_weight = sum_list weights;
             half_total_weight = total_weight / 2
         in case median_loop levels weights 0 0 half_total_weight of
              None \<Rightarrow> Inl TypeError
            | Some median \<Rightarrow>
                (let p = sum_list (map (\<lambda>i. weights ! i)
                                     (filter (\<lambda>i. sc_gt sc (levels ! i) median) [0..<length levels]));
                     q = sum_list (map (\<lambda>i. weights ! i)
                                     (filter (\<lambda>i. sc_lt sc (levels ! i) median) [0..<length levels]))
                 in if total_weight = 0 then Inl ZeroDivisionError
                    else if p > q then Inr (Some median, p / total_weight, - q / total_weight)
                    else Inr (Some median, - q / total_weight, p / total_weight))))"







subsection \<open>Bounds of a scale and invariants of a ballot\<close>





section \<open>Verified properties\<close>

subsection \<open>Conversion to levels\<close>

text \<open>
  C2. The claim: constructing \<open>ConverterBallotToLevels\<close> with \<open>scale=None\<close> succeeds and
  gives a converter onto the interval scale with bounds 0 and 1. The source does not:
  after the first statement has installed the interval converter, the separate
  \<open>if/elif/else\<close> chain finds that \<open>None\<close> is an instance of no scale class and its \<open>else\<close>
  raises \<open>NotImplementedError\<close>, for either value of the Borda option.
\<close>

theorem ConverterBallotToLevels_None_raises:
  "first_statement None ugp = Some (AuxInterval (ConverterBallotToLevelsInterval 0 1 ugp))
   \<and> ConverterBallotToLevels None ugp = Inl NotImplementedError"
  by (simp add: ConverterBallotToLevels_def first_statement_def)

text \<open>
  C3. The claim: an order ballot with a degenerate Borda denominator converts to the
  maximal scale value without a division by zero. The source divides by \<open>score_max\<close>
  unguarded: the order ballot \<open>a\<close> over the candidates \<open>{a}\<close> (unordered candidates give
  points, \<open>|candidates| - 1 = 0\<close>) and the order ballot \<open>a\<close> over \<open>{a, b}\<close> (they do not,
  one mentioned candidate) both raise \<open>ZeroDivisionError\<close>, whereas the one-name ballot for
  \<open>a\<close> over \<open>{a}\<close> converts to the maximal value.
\<close>

theorem order_to_levels_degenerate_denominator:
  "interval_call (ConverterBallotToLevelsInterval 0 1 True)
       (BallotOrder [{''a''}] {''a''}) None = Inl ZeroDivisionError
   \<and> interval_call (ConverterBallotToLevelsInterval 0 1 False)
       (BallotOrder [{''a''}] {''a'', ''b''}) None = Inl ZeroDivisionError
   \<and> interval_call (ConverterBallotToLevelsInterval 0 1 True)
       (BallotOneName (Some ''a'') {''a''}) None
     = Inr (mk_levels [''a'' \<mapsto> LFloat 1] {''a''} (ScaleInterval 0 1))"
  by (auto simp add: interval_call_def order_to_levels_def extremal_levels_def
      ConverterBallotToLevelsInterval_def mk_levels_def fun_eq_iff)




subsection \<open>Restriction composes by intersection\<close>

lemma scale_given: "scale \<lparr>as_dict = d, candidates = cs, input_scale = Some s\<rparr> = s"
  by (simp add: scale_def)

lemma restrict_twice:
  "restrict (restrict b (Some S)) (Some T) = restrict b (Some (S \<inter> T))"
  by (auto simp add: scale_given fun_eq_iff)

lemma nonempty_classes_twice:
  "filter (\<lambda>cl. cl \<noteq> {}) (map (\<lambda>cl. cl \<inter> T) (filter (\<lambda>cl. cl \<noteq> {}) (map (\<lambda>cl. cl \<inter> S) wo)))
     = filter (\<lambda>cl. cl \<noteq> {}) (map (\<lambda>cl. cl \<inter> (S \<inter> T)) wo)"
  by (induction wo) (auto simp: Int_assoc)

text \<open>
  C7. Restricting a levels ballot to \<open>S\<close> and then to \<open>T\<close> gives the ballot restricted to
  \<open>S \<inter> T\<close>: the same dictionary (the evaluations of the candidates in \<open>S \<inter> T\<close>), the same
  declared candidates (those of the ballot that lie in \<open>S \<inter> T\<close>) and the scale of the
  original ballot. The same holds for an order ballot, whose indifference classes are
  filtered to \<open>S \<inter> T\<close>.
\<close>

theorem restrict_restrict:
  "restrict (restrict b (Some S)) (Some T) = restrict b (Some (S \<inter> T))
   \<and> as_dict (restrict (restrict b (Some S)) (Some T))
       = (\<lambda>k. if k \<in> S \<inter> T then as_dict b k else None)
   \<and> candidates (restrict (restrict b (Some S)) (Some T)) = candidates b \<inter> (S \<inter> T)
   \<and> scale (restrict (restrict b (Some S)) (Some T)) = scale b
   \<and> order_restrict (order_restrict (wo, cs) S) T = order_restrict (wo, cs) (S \<inter> T)
   \<and> order_restrict (wo, cs) (S \<inter> T)
       = (filter (\<lambda>cl. cl \<noteq> {}) (map (\<lambda>cl. cl \<inter> (S \<inter> T)) wo), cs \<inter> (S \<inter> T))"
proof -
  have "as_dict (restrict b (Some (S \<inter> T))) = (\<lambda>k. if k \<in> S \<inter> T then as_dict b k else None)"
    by simp
  moreover have "candidates (restrict b (Some (S \<inter> T))) = candidates b \<inter> (S \<inter> T)"
    by simp
  moreover have "scale (restrict b (Some (S \<inter> T))) = scale b"
    by (simp add: scale_given)
  moreover have "order_restrict (order_restrict (wo, cs) S) T = order_restrict (wo, cs) (S \<inter> T)"
    by (simp add: nonempty_classes_twice Int_assoc)
  ultimately show ?thesis
    by (simp only: restrict_twice order_restrict.simps simp_thms)
qed

lemma ran_example:
  "ran [''a'' \<mapsto> LInt 10, ''b'' \<mapsto> LInt 7, ''c'' \<mapsto> LInt 0] = {LInt 0, LInt 7, LInt 10}"
  by (simp add: ran_map_upd)

theorem restrict_restrict_witness:
  "restrict (restrict \<lparr>as_dict = [''a'' \<mapsto> LInt 10, ''b'' \<mapsto> LInt 7, ''c'' \<mapsto> LInt 0],
                       candidates = {''a'', ''b'', ''c''}, input_scale = None\<rparr>
              (Some {''a'', ''b''})) (Some {''b'', ''c'', ''d''})
     = \<lparr>as_dict = [''b'' \<mapsto> LInt 7], candidates = {''b''}, input_scale = Some (ScaleRange 0 10)\<rparr>
   \<and> order_restrict (order_restrict ([{''a'', ''b''}, {''c''}], {''a'', ''b'', ''c''}) {''a'', ''c''}) {''b'', ''c''}
     = ([{''c''}], {''c''})"
proof -
  have "{''a'', ''b''} \<inter> {''b'', ''c'', ''d''} = {''b''}"
    by auto
  moreover have "{''a'', ''c''} \<inter> {''b'', ''c''} = {''c''}"
    by auto
  ultimately show ?thesis
    using restrict_restrict [of
        "\<lparr>as_dict = [''a'' \<mapsto> LInt 10, ''b'' \<mapsto> LInt 7, ''c'' \<mapsto> LInt 0],
          candidates = {''a'', ''b'', ''c''}, input_scale = None\<rparr>"
        "{''a'', ''b''}" "{''b'', ''c'', ''d''}" "[{''a'', ''b''}, {''c''}]" "{''a'', ''b'', ''c''}"]
    by (auto simp add: scale_def ran_example fun_eq_iff)
qed


subsection \<open>The Bucklin scorer\<close>

lemma share_of_None: "c \<notin> \<Union>(set wo) \<Longrightarrow> share_of (distribute b wo) c = None"
  by (induction wo arbitrary: b) auto

lemma ordered_loop_append: "ordered_loop (xs @ ys) st = ordered_loop ys (ordered_loop xs st)"
  by (induction xs arbitrary: st) auto

lemma loop_inv:
  "pairwise_disjoint wo \<Longrightarrow>
   ordered_loop wo (sc, b) =
     ((\<lambda>c. case share_of (distribute b wo) c of Some s \<Rightarrow> Some s | None \<Rightarrow> sc c), budget_after b wo)"
proof (induction wo arbitrary: sc b)
  case Nil
  then show ?case by simp
next
  case (Cons cl rest)
  then have d: "\<And>c. c \<in> cl \<Longrightarrow> c \<notin> \<Union>(set rest)" and pd: "pairwise_disjoint rest"
    by auto
  show ?case
  proof (cases "of_nat (card cl) \<le> b")
    case True
    then show ?thesis
      using Cons.IH [OF pd] d
      by (auto simp add: give_points_def update_all_def fun_eq_iff share_of_None)
  next
    case False
    then show ?thesis
      using Cons.IH [OF pd] d
      by (auto simp add: give_points_def update_all_def fun_eq_iff share_of_None)
  qed
qed


lemma share_of_append:
  "share_of (distribute b (xs @ ys)) c =
     (case share_of (distribute b xs) c of
        Some s \<Rightarrow> Some s
      | None \<Rightarrow> share_of (distribute (budget_after b xs) ys) c)"
  by (induction xs arbitrary: b) (auto split: option.splits)

lemma budget_after_append: "budget_after b (xs @ ys) = budget_after (budget_after b xs) ys"
  by (induction xs arbitrary: b) auto

lemma ordered_loop_shared:
  "pairwise_disjoint wo \<Longrightarrow> ordered_loop wo (Map.empty, b) = shared b wo Map.empty"
  by (simp add: loop_inv shared_def)

lemma give_points_shared:
  assumes "G \<inter> \<Union>(set ranks) = {}"
  shows "give_points G (shared b ranks z) = shared b (ranks @ [G]) z"
proof -
  have "c \<in> G \<Longrightarrow> share_of (distribute b ranks) c = None" for c
    using assms by (auto intro: share_of_None)
  then show ?thesis
    by (auto simp add: shared_def give_points_def update_all_def share_of_append
        budget_after_append fun_eq_iff split: option.splits)
qed

lemma zero_points_shared:
  assumes "G \<inter> \<Union>(set ranks) = {}"
  shows "(update_all (fst (shared b ranks z)) G 0, snd (shared b ranks z))
           = shared b ranks (update_all z G 0)"
proof -
  have "c \<in> G \<Longrightarrow> share_of (distribute b ranks) c = None" for c
    using assms by (auto intro: share_of_None)
  then show ?thesis
    by (auto simp add: shared_def update_all_def fun_eq_iff split: option.splits)
qed

lemma policy_shared:
  assumes "G \<inter> \<Union>(set ranks) = {}"
  shows "(case flag of
            Some False \<Rightarrow> (update_all (fst (shared b ranks z)) G 0, snd (shared b ranks z))
          | Some True \<Rightarrow> give_points G (shared b ranks z)
          | None \<Rightarrow> shared b ranks z)
         = shared b (ranks @ (if flag = Some True then [G] else []))
             (if flag = Some False then update_all z G 0 else z)"
proof (cases flag)
  case None
  then show ?thesis by simp
next
  case (Some t)
  then show ?thesis
    using give_points_shared [OF assms] zero_points_shared [OF assms]
    by (cases t) simp_all
qed

lemma bucklin_refines:
  assumes pd: "pairwise_disjoint wo" and sub: "\<Union>(set wo) \<subseteq> cb"
  shows "ScorerBucklin_scores wo cb ce k u a = bucklin_spec wo cb ce k u a"
proof -
  define U where "U = cb - \<Union>(set wo)"
  define A where "A = ce - cb"
  define R2 where "R2 = wo @ (if u = Some True then [U] else [])"
  define z2 :: "'a \<rightharpoonup> rat" where "z2 = (if u = Some False then update_all Map.empty U 0 else Map.empty)"
  have dU: "U \<inter> \<Union>(set wo) = {}"
    by (auto simp add: U_def)
  have dA: "A \<inter> \<Union>(set R2) = {}"
    using sub by (auto simp add: A_def R2_def U_def)
  have "ScorerBucklin_scores wo cb ce k u a
          = fst (shared (of_int k) (R2 @ (if a = Some True then [A] else []))
                   (if a = Some False then update_all z2 A 0 else z2))"
    unfolding ScorerBucklin_scores_def Let_def ordered_loop_shared [OF pd]
      U_def [symmetric] A_def [symmetric]
      policy_shared [OF dU] R2_def [symmetric] z2_def [symmetric] policy_shared [OF dA] ..
  also have "\<dots> = bucklin_spec wo cb ce k u a"
    by (rule ext)
      (auto simp add: shared_def bucklin_spec_def R2_def z2_def U_def A_def update_all_def
        split: option.splits)
  finally show ?thesis .
qed


text \<open>
  C5. For an order ballot (indifference classes pairwise disjoint and among the declared
  candidates), \<open>ScorerBucklin.scores_\<close> is the distribution of \<open>k\<close> points over the ranks
  front to back: one point to each candidate of a class that fits in the remaining
  budget, the remaining budget split evenly over a class that exceeds it; unordered and
  absent candidates form one more rank each when their policy is \<open>True\<close>, score 0 when it
  is \<open>False\<close> and are left out when it is \<open>None\<close>. On \<open>a > b > c > d > e\<close> with \<open>k = 2\<close>
  the scores are \<open>{a: 1, b: 1, c: 0, d: 0, e: 0}\<close>; on \<open>a > b ~ c\<close> over \<open>{a, b, c, d, e}\<close>
  with \<open>k = 4\<close> and the election candidates \<open>{a, ..., g}\<close> they are
  \<open>{a: 1, b: 1, c: 1, d: 1/2, e: 1/2, f: 0, g: 0}\<close>.
\<close>

theorem ScorerBucklin_scores_correct:
  "(pairwise_disjoint wo \<and> \<Union>(set wo) \<subseteq> cb \<longrightarrow>
      ScorerBucklin_scores wo cb ce k u a = bucklin_spec wo cb ce k u a)
   \<and> ScorerBucklin_scores [{''a''}, {''b''}, {''c''}, {''d''}, {''e''}]
        {''a'', ''b'', ''c'', ''d'', ''e''} {''a'', ''b'', ''c'', ''d'', ''e''} 2
        (Some True) (Some True)
      = [''a'' \<mapsto> 1, ''b'' \<mapsto> 1, ''c'' \<mapsto> 0, ''d'' \<mapsto> 0, ''e'' \<mapsto> 0]
   \<and> ScorerBucklin_scores [{''a''}, {''b'', ''c''}]
        {''a'', ''b'', ''c'', ''d'', ''e''} {''a'', ''b'', ''c'', ''d'', ''e'', ''f'', ''g''} 4
        (Some True) (Some True)
      = [''a'' \<mapsto> 1, ''b'' \<mapsto> 1, ''c'' \<mapsto> 1, ''d'' \<mapsto> 1/2, ''e'' \<mapsto> 1/2,
         ''f'' \<mapsto> 0, ''g'' \<mapsto> 0]"
proof -
  have unordered: "{''a'', ''b'', ''c'', ''d'', ''e''} - ({''a''} \<union> {''b'', ''c''}) = {''d'', ''e''}"
    by auto
  have absent: "{''a'', ''b'', ''c'', ''d'', ''e'', ''f'', ''g''} - {''a'', ''b'', ''c'', ''d'', ''e''}
                  = {''f'', ''g''}"
    by auto
  have "ScorerBucklin_scores [{''a''}, {''b''}, {''c''}, {''d''}, {''e''}]
        {''a'', ''b'', ''c'', ''d'', ''e''} {''a'', ''b'', ''c'', ''d'', ''e''} 2
        (Some True) (Some True)
      = [''a'' \<mapsto> 1, ''b'' \<mapsto> 1, ''c'' \<mapsto> 0, ''d'' \<mapsto> 0, ''e'' \<mapsto> 0]"
    by (rule ext) (simp add: ScorerBucklin_scores_def give_points_def update_all_def)
  moreover have "ScorerBucklin_scores [{''a''}, {''b'', ''c''}]
        {''a'', ''b'', ''c'', ''d'', ''e''} {''a'', ''b'', ''c'', ''d'', ''e'', ''f'', ''g''} 4
        (Some True) (Some True)
      = [''a'' \<mapsto> 1, ''b'' \<mapsto> 1, ''c'' \<mapsto> 1, ''d'' \<mapsto> 1/2, ''e'' \<mapsto> 1/2,
         ''f'' \<mapsto> 0, ''g'' \<mapsto> 0]"
    by (rule ext)
      (simp add: ScorerBucklin_scores_def give_points_def update_all_def unordered absent)
  ultimately show ?thesis
    using bucklin_refines by blast
qed

text \<open>
  The general statement at the ballot \<open>a > b ~ c\<close> with \<open>k = 2\<close>, unordered candidates
  scoring 0 and absent candidates left out.
\<close>

theorem ScorerBucklin_scores_witness:
  "pairwise_disjoint [{''a''}, {''b'', ''c''}]
   \<and> \<Union>(set [{''a''}, {''b'', ''c''}]) \<subseteq> {''a'', ''b'', ''c'', ''d'', ''e''}
   \<and> bucklin_spec [{''a''}, {''b'', ''c''}] {''a'', ''b'', ''c'', ''d'', ''e''}
        {''a'', ''b'', ''c'', ''d'', ''e'', ''f'', ''g''} 2 (Some False) None
      = ScorerBucklin_scores [{''a''}, {''b'', ''c''}] {''a'', ''b'', ''c'', ''d'', ''e''}
          {''a'', ''b'', ''c'', ''d'', ''e'', ''f'', ''g''} 2 (Some False) None
   \<and> ScorerBucklin_scores [{''a''}, {''b'', ''c''}] {''a'', ''b'', ''c'', ''d'', ''e''}
          {''a'', ''b'', ''c'', ''d'', ''e'', ''f'', ''g''} 2 (Some False) None
      = [''a'' \<mapsto> 1, ''b'' \<mapsto> 1/2, ''c'' \<mapsto> 1/2, ''d'' \<mapsto> 0, ''e'' \<mapsto> 0]"
proof -
  have pd: "pairwise_disjoint [{''a''}, {''b'', ''c''}]"
    by simp
  have sub: "\<Union>(set [{''a''}, {''b'', ''c''}]) \<subseteq> {''a'', ''b'', ''c'', ''d'', ''e''}"
    by simp
  have unordered: "{''a'', ''b'', ''c'', ''d'', ''e''} - ({''a''} \<union> {''b'', ''c''}) = {''d'', ''e''}"
    by auto
  have "ScorerBucklin_scores [{''a''}, {''b'', ''c''}] {''a'', ''b'', ''c'', ''d'', ''e''}
          {''a'', ''b'', ''c'', ''d'', ''e'', ''f'', ''g''} 2 (Some False) None
      = [''a'' \<mapsto> 1, ''b'' \<mapsto> 1/2, ''c'' \<mapsto> 1/2, ''d'' \<mapsto> 0, ''e'' \<mapsto> 0]"
    by (rule ext)
      (simp add: ScorerBucklin_scores_def give_points_def update_all_def unordered)
  then show ?thesis
    using pd sub ScorerBucklin_scores_correct [of "[{''a''}, {''b'', ''c''}]"
        "{''a'', ''b'', ''c'', ''d'', ''e''}" "{''a'', ''b'', ''c'', ''d'', ''e'', ''f'', ''g''}"
        2 "Some False" None]
    by simp
qed


subsection \<open>Loading a profile\<close>

lemma convert_all_length:
  "convert_all converter xs cands = Inr bs \<Longrightarrow> length bs = length xs"
  by (induction xs arbitrary: bs) (auto split: sum.splits)

lemma list_ex_set: "list_ex P xs = (\<exists>b. b \<in> set xs \<and> P b)"
  by (auto simp add: list_ex_iff)

lemma Rule_call_loaded:
  assumes "convert_all converter (map fst profile) cands = Inr bs"
  shows "Rule_call converter profile cands =
           Inr \<lparr>attr_profile_original = profile,
                 attr_profile_converted = zip bs (map snd profile),
                 attr_candidates = (case cands of None \<Rightarrow> \<Union>(ballot_candidates ` set bs) | Some cs \<Rightarrow> cs),
                 logged = Rule_check_profile bs
                    (case cands of None \<Rightarrow> \<Union>(ballot_candidates ` set bs) | Some cs \<Rightarrow> cs)\<rparr>"
  unfolding Rule_call_def assms by (cases cands) (simp_all add: Let_def)

lemma Matrix_call_loaded:
  assumes "convert_all converter (map fst profile) cands = Inr bs"
  shows "Matrix_call converter profile cands =
           Inr \<lparr>attr_profile_original = profile,
                 attr_profile_converted = zip bs (map snd profile),
                 attr_candidates = (case cands of None \<Rightarrow> \<Union>(ballot_candidates ` set bs) | Some cs \<Rightarrow> cs),
                 logged = Matrix_check_profile bs
                    (case cands of None \<Rightarrow> \<Union>(ballot_candidates ` set bs) | Some cs \<Rightarrow> cs)\<rparr>"
  unfolding Matrix_call_def assms by (cases cands) (simp_all add: Let_def)

lemma Rule_call_raises:
  "(Rule_call converter profile cands = Inl e)
     = (convert_all converter (map fst profile) cands = Inl e)"
  by (simp add: Rule_call_def Let_def split: sum.splits)

lemma Matrix_call_raises:
  "(Matrix_call converter profile cands = Inl e)
     = (convert_all converter (map fst profile) cands = Inl e)"
  by (simp add: Matrix_call_def Let_def split: sum.splits)

lemma Rule_call_result:
  assumes c: "convert_all converter (map fst profile) cands = Inr bs"
  shows "\<exists>st. Rule_call converter profile cands = Inr st
         \<and> attr_candidates st = (case cands of None \<Rightarrow> \<Union>(ballot_candidates ` set bs) | Some cs \<Rightarrow> cs)
         \<and> map fst (attr_profile_converted st) = bs
         \<and> logged st =
             (if \<exists>b. b \<in> set bs \<and> ballot_candidates b \<noteq> attr_candidates st
              then [''Some ballots do not have the same set of candidates as the whole election.'']
              else [])"
proof -
  have len: "map fst (zip bs (map snd profile)) = bs"
    using convert_all_length [OF c] by simp
  define E where "E = (case cands of None \<Rightarrow> \<Union>(ballot_candidates ` set bs) | Some cs \<Rightarrow> cs)"
  define st where "st = \<lparr>attr_profile_original = profile,
                 attr_profile_converted = zip bs (map snd profile),
                 attr_candidates = E, logged = Rule_check_profile bs E\<rparr>"
  have 1: "Rule_call converter profile cands = Inr st"
    unfolding st_def E_def by (rule Rule_call_loaded [OF c])
  have 2: "attr_candidates st = E" "map fst (attr_profile_converted st) = bs"
    by (simp_all add: st_def len)
  have 3: "logged st = (if \<exists>b. b \<in> set bs \<and> ballot_candidates b \<noteq> E
              then [''Some ballots do not have the same set of candidates as the whole election.'']
              else [])"
    by (simp add: st_def Rule_check_profile_def list_ex_set)
  show ?thesis
    unfolding E_def [symmetric]
    using 1 2 3 by metis
qed

lemma Matrix_call_result:
  assumes c: "convert_all converter (map fst profile) cands = Inr bs"
  shows "\<exists>st. Matrix_call converter profile cands = Inr st
         \<and> attr_candidates st = (case cands of None \<Rightarrow> \<Union>(ballot_candidates ` set bs) | Some cs \<Rightarrow> cs)
         \<and> map fst (attr_profile_converted st) = bs
         \<and> logged st =
             (if \<exists>b. b \<in> set bs \<and> ballot_candidates b \<noteq> attr_candidates st
              then [''Some ballots do not have the same set of candidates as the whole election.'']
              else [])"
proof -
  have len: "map fst (zip bs (map snd profile)) = bs"
    using convert_all_length [OF c] by simp
  define E where "E = (case cands of None \<Rightarrow> \<Union>(ballot_candidates ` set bs) | Some cs \<Rightarrow> cs)"
  define st where "st = \<lparr>attr_profile_original = profile,
                 attr_profile_converted = zip bs (map snd profile),
                 attr_candidates = E, logged = Matrix_check_profile bs E\<rparr>"
  have 1: "Matrix_call converter profile cands = Inr st"
    unfolding st_def E_def by (rule Matrix_call_loaded [OF c])
  have 2: "attr_candidates st = E" "map fst (attr_profile_converted st) = bs"
    by (simp_all add: st_def len)
  have 3: "logged st = (if \<exists>b. b \<in> set bs \<and> ballot_candidates b \<noteq> E
              then [''Some ballots do not have the same set of candidates as the whole election.'']
              else [])"
    by (simp add: st_def Matrix_check_profile_def list_ex_set)
  show ?thesis
    unfolding E_def [symmetric]
    using 1 2 3 by metis
qed

text \<open>
  C8. When every ballot converts, \<open>Rule.__call__\<close> and \<open>Matrix.__call__\<close> return: without a
  candidates argument the candidates of the election are the union of the candidates of
  the converted ballots, with one they are the argument; a ballot whose candidates differ
  from the candidates of the election adds exactly one warning to the log and changes
  nothing else; and the call raises only what the converter raises.
\<close>

theorem call_candidates_and_warning:
  "(convert_all converter (map fst profile) cands = Inr bs \<longrightarrow>
      (\<exists>st. Rule_call converter profile cands = Inr st
         \<and> attr_candidates st = (case cands of None \<Rightarrow> \<Union>(ballot_candidates ` set bs) | Some cs \<Rightarrow> cs)
         \<and> map fst (attr_profile_converted st) = bs
         \<and> logged st =
             (if \<exists>b. b \<in> set bs \<and> ballot_candidates b \<noteq> attr_candidates st
              then [''Some ballots do not have the same set of candidates as the whole election.'']
              else []))
      \<and> (\<exists>st. Matrix_call converter profile cands = Inr st
         \<and> attr_candidates st = (case cands of None \<Rightarrow> \<Union>(ballot_candidates ` set bs) | Some cs \<Rightarrow> cs)
         \<and> map fst (attr_profile_converted st) = bs
         \<and> logged st =
             (if \<exists>b. b \<in> set bs \<and> ballot_candidates b \<noteq> attr_candidates st
              then [''Some ballots do not have the same set of candidates as the whole election.'']
              else [])))
   \<and> (Rule_call converter profile cands = Inl e)
       = (convert_all converter (map fst profile) cands = Inl e)
   \<and> (Matrix_call converter profile cands = Inl e)
       = (convert_all converter (map fst profile) cands = Inl e)"
  by (intro conjI impI Rule_call_result Matrix_call_result Rule_call_raises Matrix_call_raises)

lemma candidates_union_example:
  "\<Union>(ballot_candidates ` set [BallotOneName (Some ''a'') {''a'', ''b''},
                                  BallotVeto (Some ''c'') {''b'', ''c''}]) = {''a'', ''b'', ''c''}"
  by (simp add: insert_commute)

lemma candidates_differ_example: "{''a'', ''b''} \<noteq> {''a'', ''b'', ''c''}"
proof
  assume "{''a'', ''b''} = {''a'', ''b'', ''c''}"
  then have "''c'' \<in> {''a'', ''b''}" by simp
  then show False by simp
qed

text \<open>
  The statement at a profile of two ballots with different candidates, loaded with the
  converter that returns every ballot unchanged: the election has the candidates
  \<open>{a, b, c}\<close> and the warning is logged.
\<close>

theorem call_candidates_and_warning_witness:
  "convert_all (\<lambda>b cs. Inr b)
       (map fst [(BallotOneName (Some ''a'') {''a'', ''b''}, 1::rat, ()),
                 (BallotVeto (Some ''c'') {''b'', ''c''}, 2, ())]) None
     = Inr [BallotOneName (Some ''a'') {''a'', ''b''}, BallotVeto (Some ''c'') {''b'', ''c''}]
   \<and> (\<exists>st. Rule_call (\<lambda>b cs. Inr b)
              [(BallotOneName (Some ''a'') {''a'', ''b''}, 1::rat, ()),
               (BallotVeto (Some ''c'') {''b'', ''c''}, 2, ())] None = Inr st
         \<and> attr_candidates st = {''a'', ''b'', ''c''}
         \<and> logged st
             = [''Some ballots do not have the same set of candidates as the whole election.''])"
proof -
  let ?b1 = "BallotOneName (Some ''a'') {''a'', ''b''}"
  let ?b2 = "BallotVeto (Some ''c'') {''b'', ''c''}"
  let ?p = "[(?b1, 1::rat, ()), (?b2, 2, ())]"
  have c: "convert_all (\<lambda>b cs. Inr b) (map fst ?p) None = Inr [?b1, ?b2]"
    by simp
  note T = call_candidates_and_warning [of "\<lambda>b cs. Inr b" ?p None "[?b1, ?b2]"]
  have "\<exists>st. Rule_call (\<lambda>b cs. Inr b) ?p None = Inr st
         \<and> attr_candidates st = (case None :: string set option of
                                   None \<Rightarrow> \<Union>(ballot_candidates ` set [?b1, ?b2]) | Some cs \<Rightarrow> cs)
         \<and> map fst (attr_profile_converted st) = [?b1, ?b2]
         \<and> logged st =
             (if \<exists>b. b \<in> set [?b1, ?b2] \<and> ballot_candidates b \<noteq> attr_candidates st
              then [''Some ballots do not have the same set of candidates as the whole election.'']
              else [])"
    by (rule conjunct1 [OF mp [OF conjunct1 [OF T] c]])
  then obtain st where st1: "Rule_call (\<lambda>b cs. Inr b) ?p None = Inr st"
    and st2: "attr_candidates st = (case None :: string set option of
                                   None \<Rightarrow> \<Union>(ballot_candidates ` set [?b1, ?b2]) | Some cs \<Rightarrow> cs)"
    and st3: "logged st =
             (if \<exists>b. b \<in> set [?b1, ?b2] \<and> ballot_candidates b \<noteq> attr_candidates st
              then [''Some ballots do not have the same set of candidates as the whole election.'']
              else [])"
    by (elim exE conjE)
  have cs: "attr_candidates st = {''a'', ''b'', ''c''}"
    unfolding st2 option.case by (rule candidates_union_example)
  have "ballot_candidates ?b1 \<noteq> attr_candidates st"
    unfolding cs using candidates_differ_example by simp
  then have "\<exists>b. b \<in> set [?b1, ?b2] \<and> ballot_candidates b \<noteq> attr_candidates st"
    by (intro exI [of _ ?b1] conjI) simp_all
  then have lg: "logged st = [''Some ballots do not have the same set of candidates as the whole election.'']"
    unfolding st3 by (rule if_P)
  show ?thesis
    by (intro conjI exI [of _ st] c st1 cs lg)
qed

subsection \<open>The two copies of the general converter\<close>




subsection \<open>Majority Judgment\<close>















lemma MJ_example_zero: "MJ_score (scale_by (\<lambda>x::rat. x)) None [1] [0] = Inl ZeroDivisionError"
  by (simp add: MJ_score_def scale_by_def)












subsection \<open>Converted levels lie within the target bounds\<close>






























end
